theory Spec2Isabelle
  imports Complex_Main "HOL-Library.Word"
begin

unbundle bit_operations_syntax

section \<open>Data model (bmp.h, steg.h)\<close>

text \<open>
  \<^verbatim>\<open>unsigned char\<close> and \<^verbatim>\<open>uint8_t\<close> are 8-bit words, \<^verbatim>\<open>uint32_t\<close> is a 32-bit
  word. The \<^verbatim>\<open>int32_t\<close> and \<^verbatim>\<open>int\<close> quantities of the source are integers; the two
  places where they can leave the 32-bit range (negating \<^verbatim>\<open>INT_MIN\<close> and
  \<^verbatim>\<open>row * width + col\<close>) are undefined in C and are the value \<open>None\<close> below.
  A \<^verbatim>\<open>size_t\<close> is 64 bits wide: the casts \<^verbatim>\<open>(size_t)row\<close> and the arithmetic on a
  caller-supplied \<^verbatim>\<open>message_len\<close> are written out modulo \<open>2 ^ 64\<close>; the element count of
  an array that exists in memory (\<^verbatim>\<open>positions_count\<close>) is a natural number.

  A pixel buffer is the list of its bytes, \<open>None\<close> for the \<^verbatim>\<open>NULL\<close> pointer. The C
  functions return an \<^verbatim>\<open>int\<close> code and write through pointers; the model returns
  \<open>Some (code, outputs)\<close>, and \<open>None\<close> when the C program has no defined return: a read
  or write outside a buffer, a signed overflow, a division by zero, a failed
  \<^verbatim>\<open>assert\<close>. The allocator is taken to satisfy every request, so the \<^verbatim>\<open>return 1\<close>
  that follows a failed \<^verbatim>\<open>malloc\<close> or \<^verbatim>\<open>realloc\<close> has no branch here.
\<close>

type_synonym byte = "8 word"

record BmpImage =
  header :: "byte list"
  width :: int
  height :: int
  stride :: int
  size_bytes :: int
  data :: "byte list option"

record EmbedPosition =
  pixel_index :: int

definition INT_MIN :: int where
  "INT_MIN = - (2 ^ 31)"

definition INT_MAX :: int where
  "INT_MAX = 2 ^ 31 - 1"

definition SIZE_WRAP :: int where
  "SIZE_WRAP = 2 ^ 64"

text \<open>The cast \<^verbatim>\<open>(size_t)i\<close> of a signed integer.\<close>

definition size_t_of :: "int \<Rightarrow> int" where
  "size_t_of i = i mod SIZE_WRAP"

text \<open>
  The arithmetic of \<^verbatim>\<open>double\<close> is a parameter of the model: a record of the operations
  the source uses, over any carrier \<open>'d\<close>. A theorem stated for every such record holds
  for IEEE 754 arithmetic, whatever its rounding, infinities and NaN do. \<open>d_lit\<close> reads a
  decimal literal of the source, \<open>d_of_int\<close> is the conversion \<^verbatim>\<open>(double)n\<close>.
\<close>

record 'd double_ops =
  d_add :: "'d \<Rightarrow> 'd \<Rightarrow> 'd"
  d_sub :: "'d \<Rightarrow> 'd \<Rightarrow> 'd"
  d_mul :: "'d \<Rightarrow> 'd \<Rightarrow> 'd"
  d_div :: "'d \<Rightarrow> 'd \<Rightarrow> 'd"
  d_sqrt :: "'d \<Rightarrow> 'd"
  d_less :: "'d \<Rightarrow> 'd \<Rightarrow> bool"
  d_lit :: "real \<Rightarrow> 'd"
  d_of_int :: "int \<Rightarrow> 'd"

text \<open>
  Exact real arithmetic, used to evaluate the model on concrete images. On the images
  evaluated below every window is uniform, so the exact standard deviation is \<open>0\<close> and
  the IEEE value is \<open>0\<close> or a rounding error many orders of magnitude below the threshold
  \<open>1.0\<close>: the comparison has the same outcome.
\<close>

definition exact_ops :: "real double_ops" where
  "exact_ops = \<lparr> d_add = (+), d_sub = (-), d_mul = (*), d_div = (/),
                 d_sqrt = sqrt, d_less = (<), d_lit = (\<lambda>x. x), d_of_int = of_int \<rparr>"

section \<open>Luminance Mapper (steg.c, compute_luminance, compute_luminance_map)\<close>

definition compute_luminance :: "'d double_ops \<Rightarrow> byte \<Rightarrow> byte \<Rightarrow> byte \<Rightarrow> 'd" where
  "compute_luminance fp r g b =
     d_add fp
       (d_add fp (d_mul fp (d_lit fp 0.299) (d_of_int fp (uint r)))
                 (d_mul fp (d_lit fp 0.587) (d_of_int fp (uint g))))
       (d_mul fp (d_lit fp 0.114) (d_of_int fp (uint b)))"

text \<open>\<^verbatim>\<open>(size_t)row * (size_t)img->stride + (size_t)col * 3u\<close>\<close>

definition pixel_offset :: "int \<Rightarrow> int \<Rightarrow> int \<Rightarrow> int" where
  "pixel_offset strd row col =
     (size_t_of row * size_t_of strd + size_t_of col * 3) mod SIZE_WRAP"

text \<open>The body of the inner loop of \<^verbatim>\<open>compute_luminance_map\<close>: one pixel's luminance.\<close>

definition luminance_at :: "'d double_ops \<Rightarrow> byte list \<Rightarrow> int \<Rightarrow> int \<Rightarrow> int \<Rightarrow> 'd option" where
  "luminance_at fp d strd row col =
     (let offset = pixel_offset strd row col in
      if offset + 2 < int (length d) then
        let b = d ! nat (offset + 0);
            g = d ! nat (offset + 1);
            r = d ! nat (offset + 2);
            b_hi = b AND 0xFE;
            g_hi = g AND 0xFE;
            r_hi = r AND 0xFE
        in Some (compute_luminance fp r_hi g_hi b_hi)
      else None)"

definition compute_luminance_map :: "'d double_ops \<Rightarrow> BmpImage \<Rightarrow> (int \<times> 'd list) option" where
  "compute_luminance_map fp img =
     (case data img of
        None \<Rightarrow> Some (1, [])
      | Some d \<Rightarrow>
          if width img \<le> 0 \<or> height img = 0 then Some (1, [])
          else if height img = INT_MIN then None
          else
            let w = width img;
                abs_height = (if height img > 0 then height img else - height img)
            in case those (concat (map (\<lambda>row. map (\<lambda>col. luminance_at fp d (stride img) row col)
                                                   [0..w - 1])
                                       [0..abs_height - 1])) of
                 None \<Rightarrow> None
               | Some lum \<Rightarrow> Some (0, lum))"

section \<open>Contrast Selector (steg.c, find_low_contrast_positions)\<close>

text \<open>The coordinates the three block loops visit: \<open>r\<close> outer, \<open>c\<close> inner.\<close>

definition block_coords :: "int \<Rightarrow> int \<Rightarrow> int \<Rightarrow> (int \<times> int) list" where
  "block_coords block_size br bc =
     concat (map (\<lambda>r. map (\<lambda>c. (br + r, bc + c)) [0..block_size - 1]) [0..block_size - 1])"

text \<open>First block loop: \<^verbatim>\<open>sum += lum[idx]; ++n;\<close>\<close>

definition block_sum :: "'d double_ops \<Rightarrow> 'd list \<Rightarrow> int \<Rightarrow> (int \<times> int) list \<Rightarrow> 'd \<times> int" where
  "block_sum fp lum w coords =
     foldl (\<lambda>(sum, n) (row, col). (d_add fp sum (lum ! nat (row * w + col)), n + 1))
           (d_lit fp 0, 0) coords"

text \<open>Second block loop: \<^verbatim>\<open>double d = lum[idx] - mean; sq_sum += d * d;\<close>\<close>

definition block_sq_sum :: "'d double_ops \<Rightarrow> 'd list \<Rightarrow> int \<Rightarrow> 'd \<Rightarrow> (int \<times> int) list \<Rightarrow> 'd" where
  "block_sq_sum fp lum w mean coords =
     foldl (\<lambda>sq_sum (row, col).
              let d = d_sub fp (lum ! nat (row * w + col)) mean
              in d_add fp sq_sum (d_mul fp d d))
           (d_lit fp 0) coords"

text \<open>The body of the \<open>bc\<close> loop: the positions one block contributes.\<close>

definition scan_block ::
  "'d double_ops \<Rightarrow> 'd list \<Rightarrow> int \<Rightarrow> int \<Rightarrow> 'd \<Rightarrow> int \<Rightarrow> int \<Rightarrow> EmbedPosition list" where
  "scan_block fp lum w block_size contrast_threshold br bc =
     (let coords = block_coords block_size br bc;
          (sum, n) = block_sum fp lum w coords
      in if n = 0 then []
         else
           let mean = d_div fp sum (d_of_int fp n);
               sq_sum = block_sq_sum fp lum w mean coords;
               variance = d_div fp sq_sum (d_of_int fp n);
               stddev = d_sqrt fp variance
           in if d_less fp stddev contrast_threshold
              then map (\<lambda>(row, col). \<lparr> pixel_index = row * w + col \<rparr>) coords
              else [])"

definition find_low_contrast_positions ::
  "'d double_ops \<Rightarrow> BmpImage \<Rightarrow> int \<Rightarrow> 'd \<Rightarrow> (int \<times> EmbedPosition list) option" where
  "find_low_contrast_positions fp img block_size contrast_threshold =
     (case data img of
        None \<Rightarrow> Some (1, [])
      | Some d \<Rightarrow>
          if block_size \<le> 0 then Some (1, [])
          else if height img = INT_MIN then None
          else
            let w = width img;
                h = height img;
                abs_height = (if h > 0 then h else - h)
            in if w \<le> 0 \<or> abs_height \<le> 0 then Some (1, [])
               else
                 case compute_luminance_map fp img of
                   None \<Rightarrow> None
                 | Some (rc, lum) \<Rightarrow>
                     if rc \<noteq> 0 then Some (1, [])
                     else
                       let max_row = abs_height - block_size + 1;
                           max_col = w - block_size + 1
                       in if max_row < 0 \<or> max_col < 0 then Some (0, [])
                          else
                            let positions =
                                  concat (map (\<lambda>br. concat (map (\<lambda>bc.
                                            scan_block fp lum w block_size contrast_threshold br bc)
                                          [0..max_col - 1]))
                                        [0..max_row - 1])
                            in if list_all (\<lambda>p. pixel_index p \<le> INT_MAX) positions
                               then Some (0, positions)
                               else None)"

section \<open>Embedder and Extractor (steg.c, embed_bits, extract_bits)\<close>

text \<open>C's \<^verbatim>\<open>/\<close> and \<^verbatim>\<open>%\<close> truncate towards zero.\<close>

definition c_div :: "int \<Rightarrow> int \<Rightarrow> int" where
  "c_div a b = sgn a * sgn b * (\<bar>a\<bar> div \<bar>b\<bar>)"

definition c_mod :: "int \<Rightarrow> int \<Rightarrow> int" where
  "c_mod a b = a - b * c_div a b"

text \<open>
  The channel loop of \<^verbatim>\<open>embed_bits\<close>, \<^verbatim>\<open>for (channel = 2; channel >= 0 && bit_index < total_bits; --channel)\<close>:
  the first argument counts the channels still to visit, \<open>Suc channel\<close> visits \<open>channel\<close>.
\<close>

fun embed_channels ::
  "nat \<Rightarrow> int \<Rightarrow> byte list \<Rightarrow> nat \<Rightarrow> byte list \<Rightarrow> nat \<Rightarrow> (byte list \<times> nat) option" where
  "embed_channels 0 base bitstream total_bits d bit_index = Some (d, bit_index)"
| "embed_channels (Suc channel) base bitstream total_bits d bit_index =
     (if bit_index < total_bits then
        let offset = (base + int channel) mod SIZE_WRAP in
        if offset < int (length d) \<and> bit_index < length bitstream then
          let value0 = d ! nat offset;
              bit_in = bitstream ! bit_index;
              value1 = value0 AND NOT 1;
              value2 = value1 OR (bit_in AND 1)
          in embed_channels channel base bitstream total_bits (d[nat offset := value2]) (bit_index + 1)
        else None
      else Some (d, bit_index))"

text \<open>The position loop of \<^verbatim>\<open>embed_bits\<close>.\<close>

fun embed_positions ::
  "int \<Rightarrow> int \<Rightarrow> byte list \<Rightarrow> nat \<Rightarrow> EmbedPosition list \<Rightarrow> byte list \<Rightarrow> nat
     \<Rightarrow> (byte list \<times> nat) option" where
  "embed_positions w strd bitstream total_bits [] d bit_index = Some (d, bit_index)"
| "embed_positions w strd bitstream total_bits (p # ps) d bit_index =
     (if bit_index < total_bits then
        if pixel_index p < 0 \<or> w = 0 then None
        else
          let row = c_div (pixel_index p) w;
              col = c_mod (pixel_index p) w;
              base = pixel_offset strd row col
          in case embed_channels 3 base bitstream total_bits d bit_index of
               None \<Rightarrow> None
             | Some (d', bit_index') \<Rightarrow> embed_positions w strd bitstream total_bits ps d' bit_index'
      else Some (d, bit_index))"

text \<open>A \<^verbatim>\<open>NULL\<close> buffer has no byte that may be accessed.\<close>

definition buffer :: "BmpImage \<Rightarrow> byte list" where
  "buffer img = (case data img of None \<Rightarrow> [] | Some d \<Rightarrow> d)"

definition embed_bits ::
  "BmpImage \<Rightarrow> EmbedPosition list \<Rightarrow> byte list \<Rightarrow> nat \<Rightarrow> (int \<times> BmpImage) option" where
  "embed_bits img positions bitstream total_bits =
     (if height img = INT_MIN then None
      else
        case embed_positions (width img) (stride img) bitstream total_bits positions (buffer img) 0 of
          None \<Rightarrow> None
        | Some (d', bit_index) \<Rightarrow>
            if bit_index = total_bits
            then Some (0, img\<lparr> data := map_option (\<lambda>_. d') (data img) \<rparr>)
            else None)"

text \<open>
  \<^verbatim>\<open>extract_bits\<close> fills \<^verbatim>\<open>bitstream[0..bit_index-1]\<close> in order: the model carries the bits
  written so far, and \<^verbatim>\<open>bit_index\<close> is their number.
\<close>

fun extract_channels :: "nat \<Rightarrow> int \<Rightarrow> nat \<Rightarrow> byte list \<Rightarrow> byte list \<Rightarrow> byte list option" where
  "extract_channels 0 base total_bits d bits = Some bits"
| "extract_channels (Suc channel) base total_bits d bits =
     (if length bits < total_bits then
        let offset = (base + int channel) mod SIZE_WRAP in
        if offset < int (length d) then
          let value0 = d ! nat offset;
              bit_out = value0 AND 1
          in extract_channels channel base total_bits d (bits @ [bit_out])
        else None
      else Some bits)"

fun extract_positions ::
  "int \<Rightarrow> int \<Rightarrow> nat \<Rightarrow> byte list \<Rightarrow> EmbedPosition list \<Rightarrow> byte list \<Rightarrow> byte list option" where
  "extract_positions w strd total_bits d [] bits = Some bits"
| "extract_positions w strd total_bits d (p # ps) bits =
     (if length bits < total_bits then
        if pixel_index p < 0 \<or> w = 0 then None
        else
          let row = c_div (pixel_index p) w;
              col = c_mod (pixel_index p) w;
              base = pixel_offset strd row col
          in case extract_channels 3 base total_bits d bits of
               None \<Rightarrow> None
             | Some bits' \<Rightarrow> extract_positions w strd total_bits d ps bits'
      else Some bits)"

definition extract_bits ::
  "BmpImage \<Rightarrow> EmbedPosition list \<Rightarrow> nat \<Rightarrow> (int \<times> byte list) option" where
  "extract_bits img positions total_bits =
     (if height img = INT_MIN then None
      else
        case extract_positions (width img) (stride img) total_bits (buffer img) positions [] of
          None \<Rightarrow> None
        | Some bits \<Rightarrow> if length bits < total_bits then Some (1, bits) else Some (0, bits))"

section \<open>Bit packing and the protocols (steg.c, steg_encode_message, steg_decode_message)\<close>

text \<open>\<^verbatim>\<open>for (bit_pos = 7; bit_pos >= 0; --bit_pos) bit = (b >> bit_pos) & 1u\<close>\<close>

definition byte_bits :: "byte \<Rightarrow> byte list" where
  "byte_bits b = map (\<lambda>bit_pos. drop_bit bit_pos b AND 1) (rev [0..<8])"

text \<open>\<^verbatim>\<open>b = 0; for (bit_pos = 7; bit_pos >= 0; --bit_pos) b |= (uint8_t)(bit << bit_pos)\<close>\<close>

definition bits_byte :: "byte list \<Rightarrow> byte" where
  "bits_byte bits =
     foldl (\<lambda>b (bit_in, bit_pos). b OR push_bit bit_pos bit_in) 0 (zip bits (rev [0..<8]))"

text \<open>
  The bytes \<^verbatim>\<open>message[0..message_len-1]\<close>; reading past the end of the caller's buffer
  is undefined. A \<^verbatim>\<open>NULL\<close> message reaches the loop only with length \<open>0\<close>.
\<close>

definition message_bytes :: "byte list option \<Rightarrow> nat \<Rightarrow> byte list option" where
  "message_bytes message message_len =
     (case message of
        None \<Rightarrow> if message_len = 0 then Some [] else None
      | Some m \<Rightarrow> if message_len \<le> length m then Some (take message_len m) else None)"

definition length_header :: "nat \<Rightarrow> byte list" where
  "length_header message_len =
     (let len32 = (word_of_nat message_len :: 32 word)
      in [ucast (len32 AND 0xFF),
          ucast (drop_bit 8 len32 AND 0xFF),
          ucast (drop_bit 16 len32 AND 0xFF),
          ucast (drop_bit 24 len32 AND 0xFF)])"

definition steg_encode_message ::
  "'d double_ops \<Rightarrow> BmpImage \<Rightarrow> byte list option \<Rightarrow> nat \<Rightarrow> int \<Rightarrow> 'd \<Rightarrow> (int \<times> BmpImage) option" where
  "steg_encode_message fp img message message_len block_size contrast_threshold =
     (if data img = None then Some (1, img)
      else if message = None \<and> message_len > 0 then Some (1, img)
      else
        case find_low_contrast_positions fp img block_size contrast_threshold of
          None \<Rightarrow> None
        | Some (rc, positions) \<Rightarrow>
            if rc \<noteq> 0 then Some (1, img)
            else
              let positions_count = int (length positions);
                  capacity_bits = positions_count * 3;
                  required_bits = ((4 + int message_len) * 8) mod SIZE_WRAP
              in if capacity_bits < required_bits then Some (- 1, img)
                 else
                   let total_bytes = (4 + int message_len) mod SIZE_WRAP;
                       total_bits = (total_bytes * 8) mod SIZE_WRAP
                   in case message_bytes message message_len of
                        None \<Rightarrow> None
                      | Some m \<Rightarrow>
                          let bitstream = concat (map byte_bits (length_header message_len))
                                          @ concat (map byte_bits m)
                          in if int (length bitstream) \<noteq> total_bits then None
                             else embed_bits img positions bitstream (nat total_bits))"

definition header_length :: "byte list \<Rightarrow> int" where
  "header_length header_bits =
     (let header_bytes = map (\<lambda>i. bits_byte (take 8 (drop (8 * i) header_bits))) [0..<4];
          len32 = (0 :: 32 word)
                    OR ucast (header_bytes ! 0)
                    OR push_bit 8 (ucast (header_bytes ! 1))
                    OR push_bit 16 (ucast (header_bytes ! 2))
                    OR push_bit 24 (ucast (header_bytes ! 3))
      in uint len32)"

definition steg_decode_message ::
  "'d double_ops \<Rightarrow> BmpImage \<Rightarrow> int \<Rightarrow> 'd \<Rightarrow> (int \<times> byte list option \<times> nat) option" where
  "steg_decode_message fp img block_size contrast_threshold =
     (if data img = None then Some (1, None, 0)
      else
        case find_low_contrast_positions fp img block_size contrast_threshold of
          None \<Rightarrow> None
        | Some (rc, positions) \<Rightarrow>
            if rc \<noteq> 0 then Some (1, None, 0)
            else
              let positions_count = int (length positions);
                  capacity_bits = positions_count * 3
              in if capacity_bits < 32 then Some (1, None, 0)
                 else
                   case extract_bits img positions 32 of
                     None \<Rightarrow> None
                   | Some (rc1, header_bits) \<Rightarrow>
                       if rc1 \<noteq> 0 then Some (1, None, 0)
                       else
                         let message_len = header_length header_bits;
                             required_bits = ((4 + message_len) * 8) mod SIZE_WRAP
                         in if capacity_bits < required_bits then Some (1, None, 0)
                            else
                              case extract_bits img positions (nat required_bits) of
                                None \<Rightarrow> None
                              | Some (rc2, all_bits) \<Rightarrow>
                                  if rc2 \<noteq> 0 then Some (1, None, 0)
                                  else
                                    let message =
                                          map (\<lambda>i. bits_byte (take 8 (drop (32 + 8 * i) all_bits)))
                                              [0..<nat message_len]
                                    in Some (0, Some message, nat message_len))"

section \<open>Images of the test suite (tests/test_steg.cpp, create_test_image)\<close>

definition create_test_image :: "int \<Rightarrow> int \<Rightarrow> byte \<Rightarrow> byte \<Rightarrow> byte \<Rightarrow> BmpImage" where
  "create_test_image w h r g b =
     (let strd = ((w * 3 + 3) div 4) * 4;
          abs_height = (if h > 0 then h else - h);
          sz = strd * abs_height
      in \<lparr> header = replicate 54 0, width = w, height = h, stride = strd, size_bytes = sz,
           data = Some (concat (replicate (nat abs_height)
                     (concat (replicate (nat w) [b, g, r]) @ replicate (nat (strd - w * 3)) 0))) \<rparr>)"

section \<open>Null message\<close>

text \<open>
  C10. Called with a \<^verbatim>\<open>NULL\<close> message and a length greater than zero,
  \<^verbatim>\<open>steg_encode_message\<close> returns 1, which is neither success (0) nor the capacity
  signal (-1), and the image it returns is the image it was given, for every image,
  block size and threshold.
\<close>

theorem encode_null_message:
  "0 < message_len \<Longrightarrow>
   steg_encode_message fp img None message_len block_size contrast_threshold = Some (1, img)"
  by (simp add: steg_encode_message_def)

theorem encode_null_message_witness:
  "steg_encode_message exact_ops (create_test_image 4 4 50 50 50) None 100 2 1
     = Some (1, create_test_image 4 4 50 50 50)"
  using encode_null_message [of 100 exact_ops "create_test_image 4 4 50 50 50" 2 1] by simp

end
